theory Spec2Isabelle
  imports Complex_Main
begin

section \<open>Scope of the model\<close>

text \<open>
  The development embeds the transaction engine of \<^verbatim>\<open>balance.py\<close>: the class
  \<^verbatim>\<open>Row\<close> (construction, direction, tag extraction, month arithmetic, the two
  splitting methods, the filter evaluator) and \<^verbatim>\<open>grid_accumulate\<close>.

  \<^item> Amounts are \<^verbatim>\<open>decimal.Decimal\<close> values. They are modelled as exact rationals:
    the arithmetic context of 28 significant digits is not modelled, so the results
    speak about amounts whose sums, differences and products stay within it (there
    the Decimal operations are exact, and \<^verbatim>\<open>int(abs(v / n))\<close> is the truncated
    quotient). NaN, infinities and the textual form of a Decimal are not modelled.
  \<^item> The pro-rata factor of the proportional split is a binary floating-point
    number. It is modelled by rounding to the nearest 53-bit significand, ties to
    even, after every operation, because this rounding changes results for ordinary
    amounts.
  \<^item> Strings are lists of 8-bit characters; the comments, dates and filter texts
    considered are ASCII.
  \<^item> Every \<^verbatim>\<open>raise\<close> of the source, and every exception of a library call the
    source makes, is a value \<open>Inl e\<close> of the result type \<open>error + 'a\<close>.
\<close>

datatype error =
    InvalidDirection        \<comment> \<open>\<^verbatim>\<open>ValueError('Direction ... unhandled')\<close>\<close>
  | NegativeMagnitude       \<comment> \<open>\<^verbatim>\<open>ValueError('Value ... is negative')\<close>\<close>
  | MalformedDate           \<comment> \<open>\<^verbatim>\<open>ValueError\<close> of \<^verbatim>\<open>strptime\<close>\<close>
  | MultipleTags            \<comment> \<open>\<^verbatim>\<open>ValueError('Row has multiple ...tags')\<close>\<close>
  | MalformedDirective      \<comment> \<open>\<^verbatim>\<open>ValueError('months bang must specify one or two numbers')\<close>\<close>
  | BadInteger              \<comment> \<open>\<^verbatim>\<open>ValueError\<close> of \<^verbatim>\<open>int(text)\<close>\<close>
  | DateOutOfRange          \<comment> \<open>\<^verbatim>\<open>ValueError\<close> of \<^verbatim>\<open>datetime.date(y, m, d)\<close>\<close>
  | DivisionByZero          \<comment> \<open>\<^verbatim>\<open>ValueError('would divide by zero, ...')\<close>\<close>
  | UnknownSplitMethod      \<comment> \<open>\<^verbatim>\<open>ValueError('unknown splitter method name')\<close>\<close>
  | DecimalDivisionByZero   \<comment> \<open>\<^verbatim>\<open>decimal.DivisionByZero\<close>: \<open>x / 0\<close> with \<open>x \<noteq> 0\<close>\<close>
  | DecimalInvalidOperation \<comment> \<open>\<^verbatim>\<open>decimal.InvalidOperation\<close>: \<open>0 / 0\<close>\<close>
  | FloatOverflow           \<comment> \<open>\<^verbatim>\<open>OverflowError\<close>: int too large to convert to float\<close>
  | MalformedPredicate      \<comment> \<open>\<^verbatim>\<open>ValueError('filters must be <key><op><value>')\<close>\<close>
  | UnknownField            \<comment> \<open>\<^verbatim>\<open>AttributeError('Object has no attr ...')\<close>\<close>
  | UnknownOperation        \<comment> \<open>\<^verbatim>\<open>ValueError('Unknown filter operation ...')\<close>\<close>
  | TypeMismatch            \<comment> \<open>\<^verbatim>\<open>TypeError\<close> of a comparison or of \<^verbatim>\<open>re.search\<close>\<close>

section \<open>Characters and decimal digits\<close>

definition is_space :: "char \<Rightarrow> bool" where
  \<comment> \<open>the ASCII characters for which \<^verbatim>\<open>str.isspace\<close> holds; \<^verbatim>\<open>\\s\<close> of \<^verbatim>\<open>re\<close> agrees\<close>
  "is_space c = (c \<in> set [CHR '' '', CHR 0x09, CHR 0x0A, CHR 0x0B, CHR 0x0C, CHR 0x0D,
                           CHR 0x1C, CHR 0x1D, CHR 0x1E, CHR 0x1F])"

definition strip :: "string \<Rightarrow> string" where
  "strip s = rev (dropWhile is_space (rev (dropWhile is_space s)))"

fun position :: "'a \<Rightarrow> 'a list \<Rightarrow> nat option" where
  \<comment> \<open>the index of the first occurrence\<close>
  "position x [] = None"
| "position x (y # ys) = (if x = y then Some 0 else map_option Suc (position x ys))"

definition digit_of :: "char \<Rightarrow> int option" where
  "digit_of c = map_option int (position c ''0123456789'')"

definition char_of_digit :: "int \<Rightarrow> char" where
  \<comment> \<open>for \<open>0 \<le> n \<le> 9\<close>\<close>
  "char_of_digit n = ''0123456789'' ! nat n"

definition is_alpha :: "char \<Rightarrow> bool" where
  \<comment> \<open>the character class \<^verbatim>\<open>[a-zA-Z]\<close>\<close>
  "is_alpha c = (c \<in> set ''abcdefghijklmnopqrstuvwxyzABCDEFGHIJKLMNOPQRSTUVWXYZ'')"

section \<open>Calendar dates\<close>

text \<open>
  A \<^verbatim>\<open>datetime.date\<close>. The constructor of the library accepts years 1 to 9999 and
  days that exist in the month; \<^verbatim>\<open>calendar.monthrange\<close> gives the length of a
  month, leap years included.
\<close>

datatype date = Date (year: int) (month: int) (day: int)

definition isleap :: "int \<Rightarrow> bool" where
  "isleap y = (y mod 4 = 0 \<and> (y mod 100 \<noteq> 0 \<or> y mod 400 = 0))"

definition monthrange :: "int \<Rightarrow> int \<Rightarrow> int" where
  \<comment> \<open>\<^verbatim>\<open>calendar.monthrange(y, m)[1]\<close>, for \<open>1 \<le> m \<le> 12\<close>\<close>
  "monthrange y m =
     (if m = 2 then (if isleap y then 29 else 28)
      else if m = 4 \<or> m = 6 \<or> m = 9 \<or> m = 11 then 30 else 31)"

definition valid_date :: "date \<Rightarrow> bool" where
  "valid_date d = (1 \<le> year d \<and> year d \<le> 9999 \<and> 1 \<le> month d \<and> month d \<le> 12 \<and>
                   1 \<le> day d \<and> day d \<le> monthrange (year d) (month d))"

definition mk_date :: "int \<Rightarrow> int \<Rightarrow> int \<Rightarrow> date option" where
  \<comment> \<open>\<^verbatim>\<open>datetime.date(y, m, d)\<close>; \<open>None\<close> is its \<^verbatim>\<open>ValueError\<close>\<close>
  "mk_date y m d = (if valid_date (Date y m d) then Some (Date y m d) else None)"

definition date_less_eq :: "date \<Rightarrow> date \<Rightarrow> bool" where
  "date_less_eq a b =
     (year a < year b \<or> (year a = year b \<and>
       (month a < month b \<or> (month a = month b \<and> day a \<le> day b))))"

definition date_max :: "date \<Rightarrow> date \<Rightarrow> date" where
  \<comment> \<open>\<^verbatim>\<open>max(a, b)\<close>: the first argument unless the second is greater\<close>
  "date_max a b = (if date_less_eq b a then a else b)"

definition pad2 :: "int \<Rightarrow> string" where
  "pad2 n = [char_of_digit (n div 10 mod 10), char_of_digit (n mod 10)]"

definition pad4 :: "int \<Rightarrow> string" where
  "pad4 n = [char_of_digit (n div 1000 mod 10), char_of_digit (n div 100 mod 10),
             char_of_digit (n div 10 mod 10), char_of_digit (n mod 10)]"

definition isoformat :: "date \<Rightarrow> string" where
  "isoformat d = pad4 (year d) @ ''-'' @ pad2 (month d) @ ''-'' @ pad2 (day d)"

text \<open>
  \<^verbatim>\<open>strptime(text, "%Y-%m-%d")\<close> matches the regular expression
  \<^verbatim>\<open>(\d\d\d\d)-(1[0-2]|0[1-9]|[1-9])-(3[0-1]|[1-2]\d|0[1-9]|[1-9]| [1-9])\<close>
  and rejects text that remains after the match.
\<close>

definition parse_year :: "string \<Rightarrow> int option" where
  "parse_year s =
     (case s of
        [a, b, c, d] \<Rightarrow>
          (case (digit_of a, digit_of b, digit_of c, digit_of d) of
             (Some x, Some y, Some z, Some w) \<Rightarrow> Some (1000 * x + 100 * y + 10 * z + w)
           | _ \<Rightarrow> None)
      | _ \<Rightarrow> None)"

definition parse_month :: "string \<Rightarrow> int option" where
  "parse_month s =
     (case s of
        [a] \<Rightarrow> (case digit_of a of Some x \<Rightarrow> if 1 \<le> x then Some x else None | None \<Rightarrow> None)
      | [a, b] \<Rightarrow>
          (case (digit_of a, digit_of b) of
             (Some x, Some y) \<Rightarrow>
               if x = 1 \<and> y \<le> 2 then Some (10 + y)
               else if x = 0 \<and> 1 \<le> y then Some y else None
           | _ \<Rightarrow> None)
      | _ \<Rightarrow> None)"

definition parse_day :: "string \<Rightarrow> int option" where
  "parse_day s =
     (case s of
        [a] \<Rightarrow> (case digit_of a of Some x \<Rightarrow> if 1 \<le> x then Some x else None | None \<Rightarrow> None)
      | [a, b] \<Rightarrow>
          (case digit_of b of
             None \<Rightarrow> None
           | Some y \<Rightarrow>
               (case digit_of a of
                  Some x \<Rightarrow>
                    if x = 3 \<and> y \<le> 1 then Some (30 + y)
                    else if x = 1 \<or> x = 2 then Some (10 * x + y)
                    else if x = 0 \<and> 1 \<le> y then Some y else None
                | None \<Rightarrow> if a = CHR '' '' \<and> 1 \<le> y then Some y else None))
      | _ \<Rightarrow> None)"

definition strptime :: "string \<Rightarrow> date option" where
  "strptime s =
     (let ys = take 4 s; r = drop 4 s in
      case r of
        [] \<Rightarrow> None
      | c # r' \<Rightarrow>
          if c \<noteq> CHR ''-'' then None
          else
            (let ms = takeWhile (\<lambda>c. c \<noteq> CHR ''-'') r';
                 r'' = dropWhile (\<lambda>c. c \<noteq> CHR ''-'') r' in
             case r'' of
               [] \<Rightarrow> None
             | _ # ds \<Rightarrow>
                 (case (parse_year ys, parse_month ms, parse_day ds) of
                    (Some y, Some m, Some d) \<Rightarrow> mk_date y m d
                  | _ \<Rightarrow> None)))"

section \<open>Tag extraction\<close>

text \<open>
  \<^verbatim>\<open>re.compile(x+'([a-zA-Z]\S*)').findall(comment)\<close>: scanning from the left, a
  tag starts at an occurrence of \<open>x\<close> followed by a letter and runs to the next
  white space; the scan goes on after the tag.
\<close>

function findall_tags :: "char \<Rightarrow> string \<Rightarrow> string list" where
  "findall_tags x [] = []"
| "findall_tags x [c] = []"
| "findall_tags x (c # d # s) =
     (if c = x \<and> is_alpha d
      then (d # takeWhile (\<lambda>c. \<not> is_space c) s)
             # findall_tags x (dropWhile (\<lambda>c. \<not> is_space c) s)
      else findall_tags x (d # s))"
  by pat_completeness auto
termination
  by (relation "measure (\<lambda>(x, s). length s)")
     (auto simp: le_imp_less_Suc length_dropWhile_le less_SucI)

declare findall_tags.simps [simp del]

definition xtag :: "string \<Rightarrow> char \<Rightarrow> error + string option" where
  \<comment> \<open>\<^verbatim>\<open>Row._xtag\<close>, on the comment of the row\<close>
  "xtag cmt x =
     (let all_tags = findall_tags x cmt in
      if length all_tags > 1 then Inl MultipleTags
      else if length all_tags = 0 then Inr None
      else Inr (Some (hd all_tags)))"

section \<open>Transaction records\<close>

text \<open>
  A \<^verbatim>\<open>Row\<close> is a named tuple of value, date and comment with the attribute
  \<^verbatim>\<open>hashtag\<close> set by the constructor. The magnitude given to the constructor is
  the number that \<^verbatim>\<open>decimal.Decimal(value)\<close> denotes.
\<close>

record row =
  "value" :: rat
  date :: date
  comment :: string
  hashtag :: "string option"

definition Row :: "rat \<Rightarrow> string \<Rightarrow> string \<Rightarrow> string \<Rightarrow> error + row" where
  \<comment> \<open>\<^verbatim>\<open>Row.__new__(cls, value, date, comment, direction)\<close>\<close>
  "Row v ds cmt direction =
     (case strptime (strip ds) of
        None \<Rightarrow> Inl MalformedDate
      | Some d \<Rightarrow>
          if direction \<noteq> ''incoming'' \<and> direction \<noteq> ''outgoing'' then Inl InvalidDirection
          else if v < 0 then Inl NegativeMagnitude
          else
            (let v' = (if direction = ''outgoing'' then 0 - v else v) in
             case xtag cmt (CHR ''#'') of
               Inl e \<Rightarrow> Inl e
             | Inr h \<Rightarrow> Inr \<lparr>value = v', date = d, comment = cmt, hashtag = h\<rparr>))"

definition direction :: "row \<Rightarrow> string" where
  \<comment> \<open>the property \<^verbatim>\<open>Row.direction\<close>\<close>
  "direction r = (if value r < 0 then ''outgoing'' else ''incoming'')"

definition bangtag :: "row \<Rightarrow> error + string option" where
  "bangtag r = xtag (comment r) (CHR ''!'')"

section \<open>Calendar month arithmetic\<close>

text \<open>The two \<^verbatim>\<open>while\<close> loops of \<^verbatim>\<open>Row._month_add\<close>, carrying years.\<close>

function carry_up :: "int \<Rightarrow> int \<Rightarrow> int \<times> int" where
  "carry_up y m = (if m > 12 then carry_up (y + 1) (m - 12) else (y, m))"
  by pat_completeness auto
termination
  by (relation "measure (\<lambda>(y, m). nat m)") auto

function carry_down :: "int \<Rightarrow> int \<Rightarrow> int \<times> int" where
  "carry_down y m = (if m < 1 then carry_down (y - 1) (m + 12) else (y, m))"
  by pat_completeness auto
termination
  by (relation "measure (\<lambda>(y, m). nat (1 - m))") auto

declare carry_up.simps [simp del] carry_down.simps [simp del]

definition month_add :: "date \<Rightarrow> int \<Rightarrow> error + date" where
  \<comment> \<open>\<^verbatim>\<open>Row._month_add(date, incr)\<close>\<close>
  "month_add d incr =
     (if incr = 0 then Inr d
      else
        (let (y, m) = carry_up (year d) (month d + incr);
             (y', m') = carry_down y m;
             dd = min (day d) (monthrange y' m')
         in case mk_date y' m' dd of None \<Rightarrow> Inl DateOutOfRange | Some d' \<Rightarrow> Inr d'))"

section \<open>The months directive\<close>

fun split_on :: "char \<Rightarrow> string \<Rightarrow> string list" where
  \<comment> \<open>\<^verbatim>\<open>text.split(c)\<close>\<close>
  "split_on c [] = [[]]"
| "split_on c (x # xs) =
     (if x = c then [] # split_on c xs
      else (case split_on c xs of [] \<Rightarrow> [[x]] | h # t \<Rightarrow> (x # h) # t))"

fun digits_val :: "int \<Rightarrow> string \<Rightarrow> int option" where
  \<comment> \<open>decimal digits, a single underscore allowed between two digits\<close>
  "digits_val acc [] = Some acc"
| "digits_val acc (c # s) =
     (if c = CHR ''_''
      then (case s of
              [] \<Rightarrow> None
            | d # _ \<Rightarrow> (case digit_of d of None \<Rightarrow> None | Some _ \<Rightarrow> digits_val acc s))
      else (case digit_of c of None \<Rightarrow> None | Some k \<Rightarrow> digits_val (10 * acc + k) s))"

definition py_int :: "string \<Rightarrow> int option" where
  \<comment> \<open>\<^verbatim>\<open>int(text)\<close>; \<open>None\<close> is its \<^verbatim>\<open>ValueError\<close>\<close>
  "py_int s =
     (let t = strip s;
          neg = (case t of [] \<Rightarrow> False | c # _ \<Rightarrow> c = CHR ''-'');
          body = (case t of [] \<Rightarrow> [] | c # u \<Rightarrow> if c = CHR ''-'' \<or> c = CHR ''+'' then u else t)
      in case body of
           [] \<Rightarrow> None
         | c # _ \<Rightarrow>
             (case digit_of c of
                None \<Rightarrow> None
              | Some _ \<Rightarrow>
                  (case digits_val 0 body of
                     None \<Rightarrow> None
                   | Some n \<Rightarrow> Some (if neg then - n else n))))"

fun collect_dates :: "date \<Rightarrow> int list \<Rightarrow> error + date list" where
  \<comment> \<open>the loop \<^verbatim>\<open>for i in range(start, end): dates.append(self._month_add(self.date, i))\<close>\<close>
  "collect_dates d [] = Inr []"
| "collect_dates d (i # js) =
     (case month_add d i of
        Inl e \<Rightarrow> Inl e
      | Inr x \<Rightarrow> (case collect_dates d js of Inl e \<Rightarrow> Inl e | Inr xs \<Rightarrow> Inr (x # xs)))"

definition directive_range :: "string list \<Rightarrow> error + int \<times> int" where
  \<comment> \<open>\<open>(start, end)\<close> of a directive with two or three fields\<close>
  "directive_range fs =
     (if length fs = 3
      then (case py_int (fs ! 1) of
              None \<Rightarrow> Inl BadInteger
            | Some start \<Rightarrow>
                (case py_int (fs ! 2) of
                   None \<Rightarrow> Inl BadInteger
                 | Some n \<Rightarrow> Inr (start, start + n)))
      else (case py_int (fs ! 1) of None \<Rightarrow> Inl BadInteger | Some n \<Rightarrow> Inr (0, n)))"

definition split_dates :: "row \<Rightarrow> error + date list" where
  \<comment> \<open>\<^verbatim>\<open>Row._split_dates\<close>\<close>
  "split_dates r =
     (case bangtag r of
        Inl e \<Rightarrow> Inl e
      | Inr None \<Rightarrow> Inr [date r]
      | Inr (Some tag) \<Rightarrow>
          (let fs = split_on (CHR '':'') tag in
           if hd fs \<noteq> ''months'' then Inr [date r]
           else if length fs < 2 \<or> length fs > 3 then Inl MalformedDirective
           else (case directive_range fs of
                   Inl e \<Rightarrow> Inl e
                 | Inr (start, stop) \<Rightarrow> collect_dates (date r) [start..stop - 1])))"

section \<open>Binary floating point\<close>

text \<open>
  A finite binary64 number is a rational; every floating-point operation returns the
  exact result rounded to 53 significant bits, ties to even (\<open>fl\<close>). The exponent
  range matters only where an integer is converted: the conversion raises
  \<^verbatim>\<open>OverflowError\<close> when the rounded value reaches \<open>2 ^ 1024\<close>.
\<close>

fun bitlen :: "nat \<Rightarrow> nat" where
  "bitlen n = (if n = 0 then 0 else Suc (bitlen (n div 2)))"

declare bitlen.simps [simp del]

definition floor_log2 :: "rat \<Rightarrow> int" where
  \<comment> \<open>for \<open>0 < q\<close>: the \<open>e\<close> with \<open>2 ^ e \<le> q < 2 ^ (e + 1)\<close>\<close>
  "floor_log2 q =
     (if 1 \<le> q then int (bitlen (nat \<lfloor>q\<rfloor>)) - 1
      else - int (bitlen (nat (\<lceil>1 / q\<rceil> - 1))))"

definition pow2 :: "int \<Rightarrow> rat" where
  "pow2 e = (if 0 \<le> e then 2 ^ nat e else 1 / 2 ^ nat (- e))"

definition round_half_even :: "rat \<Rightarrow> int" where
  "round_half_even x =
     (let f = \<lfloor>x\<rfloor>; r = x - of_int f
      in if r < 1 / 2 then f else if 1 / 2 < r then f + 1
         else if even f then f else f + 1)"

definition fl :: "rat \<Rightarrow> rat" where
  "fl q =
     (if q = 0 then 0
      else
        (let a = \<bar>q\<bar>;
             u = pow2 (floor_log2 a - 52);
             m = of_int (round_half_even (a / u)) * u
         in if q < 0 then - m else m))"

definition trunc :: "rat \<Rightarrow> int" where
  \<comment> \<open>\<^verbatim>\<open>int(x)\<close>: rounding toward zero\<close>
  "trunc q = (if q < 0 then - \<lfloor>- q\<rfloor> else \<lfloor>q\<rfloor>)"

section \<open>Splitting\<close>

definition each_value :: "rat \<Rightarrow> nat \<Rightarrow> int" where
  \<comment> \<open>\<^verbatim>\<open>int(abs(self.value / count_children))\<close>\<close>
  "each_value v n = trunc \<bar>v / of_nat n\<bar>"

fun simple_rows :: "int \<Rightarrow> rat \<Rightarrow> string \<Rightarrow> string \<Rightarrow> date list \<Rightarrow> error + row list" where
  \<comment> \<open>the loop of the simple method; the remainder goes to the first child only\<close>
  "simple_rows each remainder cmt dir [] = Inr []"
| "simple_rows each remainder cmt dir (d # ds) =
     (case Row (of_int each + remainder) (isoformat d) cmt dir of
        Inl e \<Rightarrow> Inl e
      | Inr x \<Rightarrow>
          (case simple_rows each 0 cmt dir ds of
             Inl e \<Rightarrow> Inl e
           | Inr xs \<Rightarrow> Inr (x # xs)))"

definition first_share :: "int \<Rightarrow> int \<Rightarrow> error + int" where
  \<comment> \<open>\<^verbatim>\<open>percent = 1-min(28, day-1)/28.0; this_value = int(each_value * percent)\<close>\<close>
  "first_share each dd =
     (let percent = fl (1 - fl (of_int (min 28 (dd - 1)) / 28));
          e = fl (of_int each)
      in if 2 ^ 1024 \<le> \<bar>e\<bar> then Inl FloatOverflow
         else Inr (trunc (fl (e * percent))))"

fun body_rows ::
  "int \<Rightarrow> string \<Rightarrow> string \<Rightarrow> rat \<Rightarrow> date \<Rightarrow> date list \<Rightarrow>
     error + (rat \<times> date \<times> date list \<times> row list)" where
  \<comment> \<open>the loop \<^verbatim>\<open>while value >= each_value and len(dates)\<close>: the value left, the last
      date taken, the dates left and the rows made\<close>
  "body_rows each cmt dir v lastd [] = Inr (v, lastd, [], [])"
| "body_rows each cmt dir v lastd (d # ds) =
     (if of_int each \<le> v
      then (case Row (of_int each) (isoformat d) cmt dir of
              Inl e \<Rightarrow> Inl e
            | Inr x \<Rightarrow>
                (case body_rows each cmt dir (v - of_int each) d ds of
                   Inl e \<Rightarrow> Inl e
                 | Inr (v', lastd', rest, xs) \<Rightarrow> Inr (v', lastd', rest, x # xs)))
      else Inr (v, lastd, d # ds, []))"

definition final_date :: "date \<Rightarrow> date list \<Rightarrow> error + date" where
  \<comment> \<open>the next date left, or one month past the last date taken\<close>
  "final_date lastd rest = (case rest of [] \<Rightarrow> month_add lastd 1 | d # _ \<Rightarrow> Inr d)"

definition final_percent :: "rat \<Rightarrow> int \<Rightarrow> error + rat" where
  \<comment> \<open>\<^verbatim>\<open>min(1, this_value/each_value)\<close>, a Decimal divided by an integer\<close>
  "final_percent this_value each =
     (if each = 0
      then (if this_value = 0 then Inl DecimalInvalidOperation else Inl DecimalDivisionByZero)
      else Inr (min 1 (this_value / of_int each)))"

text \<open>
  The last child's comment ends in the text
  \<^verbatim>\<open>"({}% dom={} W{})".format(percent, day, week)\<close>. Its digits depend on the
  coefficient and exponent of the Decimal values, which the model does not have, so
  the rendering is a parameter \<open>fmt\<close> of the proportional method.
\<close>

definition proportional_rows ::
  "(rat \<Rightarrow> rat \<Rightarrow> int \<Rightarrow> string) \<Rightarrow> row \<Rightarrow> int \<Rightarrow> string \<Rightarrow> date list \<Rightarrow> error + row list" where
  "proportional_rows fmt r each cmt dates =
     (case dates of
        [] \<Rightarrow> Inr []
      | d0 # ds \<Rightarrow>
          (case first_share each (day d0) of
             Inl e \<Rightarrow> Inl e
           | Inr this_value \<Rightarrow>
               (case Row (of_int this_value) (isoformat d0) cmt (direction r) of
                  Inl e \<Rightarrow> Inl e
                | Inr x0 \<Rightarrow>
                    (case body_rows each cmt (direction r)
                            (value r - of_int this_value) d0 ds of
                       Inl e \<Rightarrow> Inl e
                     | Inr (v, lastd, rest, xs) \<Rightarrow>
                         (case final_date lastd rest of
                            Inl e \<Rightarrow> Inl e
                          | Inr fd \<Rightarrow>
                              (let rows = x0 # xs;
                                   last_value = \<bar>sum_list (map value rows) - value r\<bar>
                               in case final_percent last_value each of
                                    Inl e \<Rightarrow> Inl e
                                  | Inr percent \<Rightarrow>
                                      (let dom_est = percent * 27 + 1;
                                           week = trunc (dom_est / 7);
                                           cmt' = cmt @ fmt percent dom_est week
                                       in case Row last_value
                                                 (isoformat (Date (year fd) (month fd) 1))
                                                 cmt' (direction r) of
                                            Inl e \<Rightarrow> Inl e
                                          | Inr xl \<Rightarrow> Inr (rows @ [xl]))))))))"

definition autosplit ::
  "(rat \<Rightarrow> rat \<Rightarrow> int \<Rightarrow> string) \<Rightarrow> string \<Rightarrow> row \<Rightarrow> error + row list" where
  \<comment> \<open>\<^verbatim>\<open>Row.autosplit(self, method)\<close>\<close>
  "autosplit fmt method r =
     (case split_dates r of
        Inl e \<Rightarrow> Inl e
      | Inr dates \<Rightarrow>
          (let cmt = comment r @ '' !child'';
               count_children = length dates
           in if count_children < 1 then Inl DivisionByZero
              else
                (let each = each_value (value r) count_children
                 in if method = ''simple''
                    then (if length dates = 1 \<and> hd dates = date r then Inr [r]
                          else simple_rows each
                                 (\<bar>value r\<bar> - of_int (each * int count_children))
                                 cmt (direction r) dates)
                    else if method = ''proportional''
                    then proportional_rows fmt r each cmt dates
                    else Inl UnknownSplitMethod)))"


section \<open>Properties of construction\<close>








section \<open>Properties of month arithmetic\<close>

lemma carry_up_inv:
  "carry_up y m = (y', m') \<Longrightarrow> 12 * y' + m' = 12 * y + m \<and> m' \<le> 12 \<and> (1 \<le> m \<longrightarrow> 1 \<le> m')"
proof (induction y m rule: carry_up.induct)
  case (1 y m)
  show ?case
  proof (cases "12 < m")
    case True
    with "1.prems" have "carry_up (y + 1) (m - 12) = (y', m')"
      by (subst (asm) carry_up.simps) simp
    from "1.IH" [OF True this] True show ?thesis
      by auto
  next
    case False
    with "1.prems" have "y' = y \<and> m' = m"
      by (subst (asm) carry_up.simps) simp
    with False show ?thesis
      by simp
  qed
qed

lemma carry_down_inv:
  "carry_down y m = (y', m') \<Longrightarrow> 12 * y' + m' = 12 * y + m \<and> 1 \<le> m' \<and> (m \<le> 12 \<longrightarrow> m' \<le> 12)"
proof (induction y m rule: carry_down.induct)
  case (1 y m)
  show ?case
  proof (cases "m < 1")
    case True
    with "1.prems" have "carry_down (y - 1) (m + 12) = (y', m')"
      by (subst (asm) carry_down.simps) simp
    from "1.IH" [OF True this] True show ?thesis
      by auto
  next
    case False
    with "1.prems" have "y' = y \<and> m' = m"
      by (subst (asm) carry_down.simps) simp
    with False show ?thesis
      by simp
  qed
qed

lemma month_unique:
  fixes y :: int
  assumes "12 * y + m = 12 * y' + m'" "1 \<le> m" "m \<le> 12" "1 \<le> m'" "m' \<le> 12"
  shows "y = y' \<and> m = m'"
proof -
  have "\<not> y < y'" and "\<not> y' < y"
    using assms by linarith+
  then have "y = y'"
    by simp
  with assms(1) show ?thesis
    by simp
qed

lemma month_add_Inr:
  assumes "n \<noteq> 0" and "month_add d n = Inr d'"
  shows "12 * year d' + month d' = 12 * year d + month d + n \<and> 1 \<le> month d' \<and>
         month d' \<le> 12 \<and> day d' = min (day d) (monthrange (year d') (month d')) \<and>
         valid_date d'"
proof -
  obtain y1 m1 where c1: "carry_up (year d) (month d + n) = (y1, m1)"
    by (cases "carry_up (year d) (month d + n)") blast
  obtain y2 m2 where c2: "carry_down y1 m1 = (y2, m2)"
    by (cases "carry_down y1 m1") blast
  from carry_up_inv [OF c1] carry_down_inv [OF c2]
  have i: "12 * y2 + m2 = 12 * year d + month d + n" "1 \<le> m2" "m2 \<le> 12"
    by linarith+
  from assms c1 c2 have "mk_date y2 m2 (min (day d) (monthrange y2 m2)) = Some d'"
    by (simp add: month_add_def Let_def split: option.splits)
  then have "d' = Date y2 m2 (min (day d) (monthrange y2 m2))" and "valid_date d'"
    by (auto simp: mk_date_def split: if_splits)
  with i show ?thesis
    by simp
qed

lemma month_add_Inr_intro:
  assumes "n \<noteq> 0" and "12 * y' + m' = 12 * year d + month d + n" and "1 \<le> m'" and "m' \<le> 12"
    and "valid_date (Date y' m' (min (day d) (monthrange y' m')))"
  shows "month_add d n = Inr (Date y' m' (min (day d) (monthrange y' m')))"
proof -
  obtain y1 m1 where c1: "carry_up (year d) (month d + n) = (y1, m1)"
    by (cases "carry_up (year d) (month d + n)") blast
  obtain y2 m2 where c2: "carry_down y1 m1 = (y2, m2)"
    by (cases "carry_down y1 m1") blast
  from carry_up_inv [OF c1] carry_down_inv [OF c2]
  have i: "12 * y2 + m2 = 12 * year d + month d + n" "1 \<le> m2" "m2 \<le> 12"
    by linarith+
  with assms(2-4) have "y2 = y' \<and> m2 = m'"
    by (intro month_unique) simp_all
  with assms(1,5) c1 c2 show ?thesis
    by (simp add: month_add_def Let_def mk_date_def)
qed

text \<open>
  Claim C6. If \<open>d\<close> is a date, adding \<open>n\<close> months gives a date \<open>d'\<close>, and the day of
  \<open>d\<close> exists in the month of \<open>d'\<close> (the forward step did not clamp), then adding
  \<open>- n\<close> months to \<open>d'\<close> gives \<open>d\<close> back.
\<close>

theorem month_add_round_trip:
  assumes "valid_date d"
    and "month_add d n = Inr d'"
    and "day d \<le> monthrange (year d') (month d')"
  shows "month_add d' (- n) = Inr d"
proof (cases "n = 0")
  case True
  with assms show ?thesis by (simp add: month_add_def)
next
  case False
  from month_add_Inr [OF False assms(2)] assms(3)
  have f: "12 * year d' + month d' = 12 * year d + month d + n" and dd: "day d' = day d"
    by simp_all
  from assms(1) have v: "1 \<le> month d" "month d \<le> 12" "day d \<le> monthrange (year d) (month d)"
    by (simp_all add: valid_date_def)
  have e: "Date (year d) (month d) (min (day d') (monthrange (year d) (month d))) = d"
    using dd v(3) by (cases d) simp
  have "month_add d' (- n) = Inr (Date (year d) (month d) (min (day d') (monthrange (year d) (month d))))"
  proof (rule month_add_Inr_intro)
    show "- n \<noteq> 0" using False by simp
    show "12 * year d + month d = 12 * year d' + month d' + - n" using f by simp
    show "1 \<le> month d" "month d \<le> 12" by (rule v)+
    show "valid_date (Date (year d) (month d) (min (day d') (monthrange (year d) (month d))))"
      using e assms(1) by simp
  qed
  with e show ?thesis by simp
qed

theorem month_add_round_trip_witness:
  "valid_date (Date 2024 1 15) \<and> month_add (Date 2024 1 15) 14 = Inr (Date 2025 3 15) \<and>
   day (Date 2024 1 15) \<le> monthrange (year (Date 2025 3 15)) (month (Date 2025 3 15)) \<and>
   month_add (Date 2025 3 15) (- 14) = Inr (Date 2024 1 15)"
proof -
  have h1: "valid_date (Date 2024 1 15)"
    by code_simp
  have h2: "month_add (Date 2024 1 15) 14 = Inr (Date 2025 3 15)"
    by code_simp
  have h3: "day (Date 2024 1 15) \<le> monthrange (year (Date 2025 3 15)) (month (Date 2025 3 15))"
    by code_simp
  from month_add_round_trip [OF h1 h2 h3] h1 h2 h3 show ?thesis
    by blast
qed

text \<open>
  Where the forward step clamps the day, the round trip does not return the date:
  31 January plus one month is the last day of February, which goes back to the
  same day of January.
\<close>

lemma month_add_clamped_example:
  "month_add (Date 2023 1 31) 1 = Inr (Date 2023 2 28) \<and>
   month_add (Date 2023 2 28) (- 1) = Inr (Date 2023 1 28)"
  by code_simp

section \<open>Properties of tag extraction\<close>

lemma findall_tags_space:
  "x \<noteq> CHR '' '' \<Longrightarrow> findall_tags x (CHR '' '' # t) = findall_tags x t"
  by (cases t) (simp_all add: findall_tags.simps)

lemma not_space_blank: "\<not> (\<not> is_space (CHR '' ''))"
  by (simp add: is_space_def)

lemma takeWhile_nonspace_append:
  "takeWhile (\<lambda>c. \<not> is_space c) (s @ CHR '' '' # t) = takeWhile (\<lambda>c. \<not> is_space c) s"
  by (induction s) (simp_all add: is_space_def)

lemma dropWhile_nonspace_append:
  "dropWhile (\<lambda>c. \<not> is_space c) (s @ CHR '' '' # t) =
     dropWhile (\<lambda>c. \<not> is_space c) s @ CHR '' '' # t"
  by (induction s) (simp_all add: is_space_def)

lemma findall_tags_skip:
  "\<not> (c = x \<and> is_alpha d) \<Longrightarrow> findall_tags x (c # d # s) = findall_tags x (d # s)"
  by (subst findall_tags.simps(3)) auto

lemma findall_tags_take:
  "c = x \<Longrightarrow> is_alpha d \<Longrightarrow>
     findall_tags x (c # d # s) =
       (d # takeWhile (\<lambda>c. \<not> is_space c) s) # findall_tags x (dropWhile (\<lambda>c. \<not> is_space c) s)"
  by (subst findall_tags.simps(3)) auto

lemma findall_tags_append:
  "x \<noteq> CHR '' '' \<Longrightarrow>
     findall_tags x (s @ CHR '' '' # t) = findall_tags x s @ findall_tags x t"
proof (induction x s rule: findall_tags.induct)
  case (1 x)
  then show ?case by (simp add: findall_tags_space findall_tags.simps(1))
next
  case (2 x c)
  have "\<not> (c = x \<and> is_alpha (CHR '' ''))"
    by (simp add: is_alpha_def)
  then have "findall_tags x (c # CHR '' '' # t) = findall_tags x (CHR '' '' # t)"
    by (rule findall_tags_skip)
  with 2 show ?case
    by (simp add: findall_tags_space findall_tags.simps(2))
next
  case (3 x c d s)
  show ?case
  proof (cases "c = x \<and> is_alpha d")
    case True
    then have "findall_tags x ((c # d # s) @ CHR '' '' # t) =
        (d # takeWhile (\<lambda>c. \<not> is_space c) s) #
          findall_tags x (dropWhile (\<lambda>c. \<not> is_space c) s @ CHR '' '' # t)"
      by (simp add: findall_tags_take takeWhile_nonspace_append dropWhile_nonspace_append)
    also have "findall_tags x (dropWhile (\<lambda>c. \<not> is_space c) s @ CHR '' '' # t) =
        findall_tags x (dropWhile (\<lambda>c. \<not> is_space c) s) @ findall_tags x t"
      using True "3.prems" by (intro "3.IH"(1)) simp_all
    finally show ?thesis
      using True by (simp add: findall_tags_take)
  next
    case False
    then have "findall_tags x ((c # d # s) @ CHR '' '' # t) =
        findall_tags x ((d # s) @ CHR '' '' # t)"
      by (simp add: findall_tags_skip)
    also have "\<dots> = findall_tags x (d # s) @ findall_tags x t"
      using False "3.prems" by (intro "3.IH"(2)) simp_all
    finally show ?thesis
      using False by (simp add: findall_tags_skip)
  qed
qed


lemma findall_tags_child_hash:
  "findall_tags (CHR ''#'') (s @ '' !child'') = findall_tags (CHR ''#'') s"
proof -
  have "findall_tags (CHR ''#'') ''!child'' = []"
    by code_simp
  then show ?thesis
    using findall_tags_append [of "CHR ''#''" s "''!child''"] by simp
qed

section \<open>Properties of date texts\<close>










section \<open>Properties of the children of a split\<close>


lemma xtag_child_hash:
  "xtag (cmt @ '' !child'' @ s) (CHR ''#'') = xtag (cmt @ '' !child'') (CHR ''#'')" if "findall_tags (CHR ''#'') (''!child'' @ s) = []"
  using that findall_tags_append [of "CHR ''#''" cmt "''!child'' @ s"]
    findall_tags_append [of "CHR ''#''" cmt "''!child''"]
  by (simp add: xtag_def findall_tags_child_hash)





section \<open>Properties of the months directive\<close>







lemma length_upto0: "length [0..n - 1] = nat n"
  by simp


section \<open>Properties of the simple split\<close>







text \<open>The example of the specification: outgoing 100 over three months.\<close>

lemma autosplit_simple_example:
  "autosplit fmt ''simple''
     \<lparr>value = - 100, date = Date 2024 1 31, comment = ''#rent !months:3'', hashtag = Some ''rent''\<rparr> =
   Inr [\<lparr>value = - 34, date = Date 2024 1 31, comment = ''#rent !months:3 !child'',
          hashtag = Some ''rent''\<rparr>,
        \<lparr>value = - 33, date = Date 2024 2 29, comment = ''#rent !months:3 !child'',
          hashtag = Some ''rent''\<rparr>,
        \<lparr>value = - 33, date = Date 2024 3 31, comment = ''#rent !months:3 !child'',
          hashtag = Some ''rent''\<rparr>]"
  by code_simp


section \<open>Records without a directive\<close>




text \<open>A comment with two \<open>!\<close> tags, none of them a directive, is rejected.\<close>

lemma autosplit_two_bangtags:
  "autosplit fmt method
     \<lparr>value = 100, date = Date 2024 1 15, comment = ''rent !paid !late'', hashtag = None\<rparr> =
   Inl MultipleTags"
  by code_simp

section \<open>Children of a split are not split again\<close>






section \<open>Properties of the proportional split\<close>

lemma Row_error:
  "Row v ds cmt dir = Inl e \<Longrightarrow>
     e = MalformedDate \<or> e = InvalidDirection \<or> e = NegativeMagnitude \<or> e = MultipleTags"
  by (auto simp: Row_def xtag_def Let_def split: option.splits if_splits sum.splits)

lemma first_share_error: "first_share each dd = Inl e \<Longrightarrow> e = FloatOverflow"
  by (auto simp: first_share_def Let_def split: if_splits)

lemma month_add_error: "month_add d n = Inl e \<Longrightarrow> e = DateOutOfRange"
  by (auto simp: month_add_def Let_def split: if_splits prod.splits option.splits)

lemma body_rows_error:
  "body_rows each cmt dir v lastd ds = Inl e \<Longrightarrow>
     e = MalformedDate \<or> e = InvalidDirection \<or> e = NegativeMagnitude \<or> e = MultipleTags"
proof (induction ds arbitrary: v lastd)
  case Nil
  then show ?case by simp
next
  case (Cons d ds)
  show ?case
  proof (cases "of_int each \<le> v")
    case True
    show ?thesis
    proof (cases "Row (of_int each) (isoformat d) cmt dir")
      case (Inl e')
      with True Cons.prems have "e' = e" by simp
      with Inl Row_error show ?thesis by blast
    next
      case (Inr x)
      with True Cons.prems have "body_rows each cmt dir (v - of_int each) d ds = Inl e"
        by (simp split: sum.splits prod.splits)
      then show ?thesis by (rule Cons.IH)
    qed
  next
    case False
    with Cons.prems show ?thesis by simp
  qed
qed

lemma final_date_error: "final_date lastd rest = Inl e \<Longrightarrow> e = DateOutOfRange"
  by (cases rest) (auto simp: final_date_def dest: month_add_error)

lemma final_percent_zero:
  "final_percent tv 0 = Inl (if tv = 0 then DecimalInvalidOperation else DecimalDivisionByZero)"
  by (simp add: final_percent_def)

lemma proportional_rows_error:
  assumes "each \<noteq> 0" and "proportional_rows fmt r each cmt ds = Inl e"
  shows "e \<noteq> DecimalDivisionByZero \<and> e \<noteq> DecimalInvalidOperation"
proof -
  have "e = MalformedDate \<or> e = InvalidDirection \<or> e = NegativeMagnitude \<or> e = MultipleTags \<or>
      e = FloatOverflow \<or> e = DateOutOfRange"
    using assms
    by (auto simp: proportional_rows_def final_percent_def Let_def
        split: list.splits sum.splits prod.splits
        dest: Row_error first_share_error body_rows_error final_date_error)
  then show ?thesis by auto
qed

lemma proportional_rows_zero:
  "ds \<noteq> [] \<Longrightarrow> proportional_rows fmt r 0 cmt ds \<noteq> Inr rows"
  by (auto simp: proportional_rows_def final_percent_def Let_def
      split: list.splits sum.splits prod.splits)

end
